theory Spec2Isabelle
  imports Main
begin

section \<open>The process environment and JavaScript truthiness\<close>

text \<open>
  \<^verbatim>\<open>process.env\<close> maps a variable name to a string, or to \<^verbatim>\<open>undefined\<close> when the
  variable is not set. Node stores every value as a string, so the only falsy values
  a lookup can give are \<^verbatim>\<open>undefined\<close> (here \<open>None\<close>) and the empty string.
\<close>

type_synonym process_env = "string \<rightharpoonup> string"

fun truthy :: "string option \<Rightarrow> bool" where
  "truthy None = False"
| "truthy (Some v) = (v \<noteq> [])"

text \<open>\<^verbatim>\<open>a || b\<close> on a looked-up value: the value itself when truthy, else \<open>b\<close>.\<close>

fun or_else :: "string option \<Rightarrow> string \<Rightarrow> string" where
  "or_else None d = d"
| "or_else (Some v) d = (if v \<noteq> [] then v else d)"

section \<open>The validation script \<^verbatim>\<open>scripts/check-env.js\<close>\<close>

definition requiredEnvVars :: "string list" where
  "requiredEnvVars =
    [''NODE_ENV'',
     ''NEXT_PUBLIC_APP_ENV'',
     ''NEXT_PUBLIC_API_URL'',
     ''DATABASE_URL'',
     ''NEXTAUTH_SECRET'',
     ''NEXTAUTH_URL'']"

definition optionalEnvVars :: "string list" where
  "optionalEnvVars =
    [''NEXT_PUBLIC_STRIPE_PUBLIC_KEY'',
     ''STRIPE_SECRET_KEY'',
     ''AWS_REGION'',
     ''LOG_LEVEL'']"

text \<open>
  The script writes to the console and ends with \<^verbatim>\<open>process.exit\<close>. A console call is
  kept with its stream (\<^verbatim>\<open>console.log\<close> or \<^verbatim>\<open>console.error\<close>) and its text; the text
  is the UTF-8 bytes of the JavaScript string.
\<close>

datatype console_call = Log string | Error string

text \<open>The four pictographs of the messages, as UTF-8.\<close>

definition magnifier :: string where
  "magnifier = [CHR 0xF0, CHR 0x9F, CHR 0x94, CHR 0x8D]"

definition check_mark :: string where
  "check_mark = [CHR 0xE2, CHR 0x9C, CHR 0x85]"

definition cross_mark :: string where
  "cross_mark = [CHR 0xE2, CHR 0x9D, CHR 0x8C]"

definition warning_sign :: string where
  "warning_sign = [CHR 0xE2, CHR 0x9A, CHR 0xA0, CHR 0xEF, CHR 0xB8, CHR 0x8F]"

definition set_line :: "string \<Rightarrow> string" where
  "set_line varName = check_mark @ '' '' @ varName @ '': SET''"

definition missing_line :: "string \<Rightarrow> string" where
  "missing_line varName = cross_mark @ '' '' @ varName @ '': MISSING''"

definition not_set_line :: "string \<Rightarrow> string" where
  "not_set_line varName = warning_sign @ ''  '' @ varName @ '': NOT SET''"

text \<open>
  The state the script threads through: the module-level flag \<^verbatim>\<open>hasErrors\<close>, the
  console calls made so far, and the exit code once \<^verbatim>\<open>process.exit\<close> has been called.
\<close>

record proc =
  hasErrors :: bool
  console :: "console_call list"
  exited :: "nat option"

definition console_log :: "string \<Rightarrow> proc \<Rightarrow> proc" where
  "console_log msg s = s\<lparr>console := console s @ [Log msg]\<rparr>"

definition console_error :: "string \<Rightarrow> proc \<Rightarrow> proc" where
  "console_error msg s = s\<lparr>console := console s @ [Error msg]\<rparr>"

definition process_exit :: "nat \<Rightarrow> proc \<Rightarrow> proc" where
  "process_exit code s = s\<lparr>exited := Some code\<rparr>"

text \<open>\<^verbatim>\<open>Array.prototype.forEach\<close>: the callback runs on every element, first to last.\<close>

fun forEach :: "('a \<Rightarrow> 's \<Rightarrow> 's) \<Rightarrow> 'a list \<Rightarrow> 's \<Rightarrow> 's" where
  "forEach f [] s = s"
| "forEach f (x # xs) s = forEach f xs (f x s)"

text \<open>The callback of the loop over the required names.\<close>

definition check_required :: "process_env \<Rightarrow> string \<Rightarrow> proc \<Rightarrow> proc" where
  "check_required penv varName s =
    (if truthy (penv varName)
     then console_log (set_line varName) s
     else (console_log (missing_line varName) s)\<lparr>hasErrors := True\<rparr>)"

text \<open>The callback of the loop over the optional names.\<close>

definition check_optional :: "process_env \<Rightarrow> string \<Rightarrow> proc \<Rightarrow> proc" where
  "check_optional penv varName s =
    (if truthy (penv varName)
     then console_log (set_line varName) s
     else console_log (not_set_line varName) s)"

text \<open>The script from its first statement to \<^verbatim>\<open>process.exit\<close>.\<close>

definition check_env :: "process_env \<Rightarrow> proc" where
  "check_env penv =
    (let s0 = \<lparr>hasErrors = False, console = [], exited = None\<rparr>;
         s1 = console_log (magnifier @ '' Checking environment variables...\<newline>'') s0;
         s2 = console_log ''Required variables:'' s1;
         s3 = forEach (check_required penv) requiredEnvVars s2;
         s4 = console_log ''\<newline>Optional variables:'' s3;
         s5 = forEach (check_optional penv) optionalEnvVars s4;
         s6 = console_log ''\<newline>---'' s5;
         s7 = console_log (''Environment: '' @ or_else (penv ''NEXT_PUBLIC_APP_ENV'') ''NOT SET'') s6;
         s8 = console_log (''Node Environment: '' @ or_else (penv ''NODE_ENV'') ''NOT SET'') s7
     in if hasErrors s8
        then process_exit 1
               (console_error
                 (''\<newline>'' @ cross_mark @ '' Some required environment variables are missing!'') s8)
        else process_exit 0
               (console_log
                 (''\<newline>'' @ check_mark @ '' All required environment variables are set!'') s8))"

section \<open>The build configuration \<^verbatim>\<open>next.config.ts\<close>\<close>

text \<open>
  The configuration object, field by field. The field \<open>output_cfg\<close> is the source's
  \<^verbatim>\<open>output\<close>, \<open>None\<close> where the source gives \<^verbatim>\<open>undefined\<close>. \<^verbatim>\<open>headers\<close> is an
  asynchronous method in the source; the field holds the list its promise resolves to.
  A header is a \<^verbatim>\<open>key\<close>/\<^verbatim>\<open>value\<close> pair (\<open>val\<close> here), and a route entry carries
  its \<^verbatim>\<open>source\<close> pattern and its \<^verbatim>\<open>headers\<close> (\<open>route_headers\<close> here).
\<close>

record header =
  key :: string
  val :: string

record route =
  source :: string
  route_headers :: "header list"

record env_config =
  APP_ENV :: string

record images_config =
  domains :: "string list"

record NextConfig =
  env :: env_config
  reactStrictMode :: bool
  output_cfg :: "string option"
  images :: images_config
  headers :: "route list"

definition nextConfig :: "process_env \<Rightarrow> NextConfig" where
  "nextConfig penv =
    \<lparr>env = \<lparr>APP_ENV = or_else (penv ''NEXT_PUBLIC_APP_ENV'') ''development''\<rparr>,
     reactStrictMode = True,
     output_cfg = (if penv ''NEXT_PUBLIC_APP_ENV'' = Some ''production''
                   then Some ''standalone'' else None),
     images = \<lparr>domains = (if penv ''NEXT_PUBLIC_APP_ENV'' = Some ''production''
                          then [''yourapp.com'', ''cdn.yourapp.com'']
                          else [''localhost''])\<rparr>,
     headers = (if penv ''NEXT_PUBLIC_APP_ENV'' = Some ''production''
                then [\<lparr>source = ''/:path*'',
                       route_headers =
                         [\<lparr>key = ''X-DNS-Prefetch-Control'', val = ''on''\<rparr>,
                          \<lparr>key = ''Strict-Transport-Security'',
                           val = ''max-age=63072000; includeSubDomains; preload''\<rparr>,
                          \<lparr>key = ''X-Content-Type-Options'', val = ''nosniff''\<rparr>,
                          \<lparr>key = ''X-Frame-Options'', val = ''DENY''\<rparr>]\<rparr>]
                else [])\<rparr>"

text \<open>
  The header pairs the configuration attaches, over all its route entries, in order.
\<close>

definition securityHeaders :: "NextConfig \<Rightarrow> (string \<times> string) list" where
  "securityHeaders cfg =
    concat (map (\<lambda>r. map (\<lambda>h. (key h, val h)) (route_headers r)) (headers cfg))"

section \<open>Sample environments\<close>

text \<open>A deployment with every required variable set, and the discriminator at production.\<close>

definition production_env :: process_env where
  "production_env =
    [''NODE_ENV'' \<mapsto> ''production'',
     ''NEXT_PUBLIC_APP_ENV'' \<mapsto> ''production'',
     ''NEXT_PUBLIC_API_URL'' \<mapsto> ''https://api.x.com'',
     ''DATABASE_URL'' \<mapsto> ''postgres://db'',
     ''NEXTAUTH_SECRET'' \<mapsto> ''s'',
     ''NEXTAUTH_URL'' \<mapsto> ''https://x.com'']"

text \<open>The same deployment with the database address set to the empty string.\<close>

definition production_env_no_db :: process_env where
  "production_env_no_db = production_env(''DATABASE_URL'' \<mapsto> [])"

text \<open>The same deployment with one optional variable set as well.\<close>

definition production_env_logging :: process_env where
  "production_env_logging = production_env(''LOG_LEVEL'' \<mapsto> ''debug'')"

text \<open>The same deployment with a variable that neither program reads.\<close>

definition production_env_path :: process_env where
  "production_env_path = production_env(''PATH'' \<mapsto> ''/usr/bin'')"

text \<open>An environment with nothing set, and some with only the discriminator set.\<close>

definition unset_env :: process_env where
  "unset_env = Map.empty"

definition staging_env :: process_env where
  "staging_env = [''NEXT_PUBLIC_APP_ENV'' \<mapsto> ''staging'']"

definition capitalised_env :: process_env where
  "capitalised_env = [''NEXT_PUBLIC_APP_ENV'' \<mapsto> ''Production'']"

definition upper_case_env :: process_env where
  "upper_case_env = [''NEXT_PUBLIC_APP_ENV'' \<mapsto> ''PRODUCTION'']"

definition trailing_space_env :: process_env where
  "trailing_space_env = [''NEXT_PUBLIC_APP_ENV'' \<mapsto> ''production '']"

definition empty_string_env :: process_env where
  "empty_string_env = [''NEXT_PUBLIC_APP_ENV'' \<mapsto> []]"

section \<open>The two loops\<close>

lemma forEach_cong:
  "(\<And>x s. x \<in> set xs \<Longrightarrow> f x s = g x s) \<Longrightarrow> forEach f xs s = forEach g xs s"
  by (induction xs arbitrary: s) simp_all

lemma required_hasErrors:
  "hasErrors (forEach (check_required penv) ns s) =
     (hasErrors s \<or> (\<exists>n \<in> set ns. \<not> truthy (penv n)))"
  by (induction ns arbitrary: s) (auto simp: check_required_def console_log_def)


lemma optional_hasErrors: "hasErrors (forEach (check_optional penv) ns s) = hasErrors s"
  by (induction ns arbitrary: s) (simp_all add: check_optional_def console_log_def)


lemma truthy_iff: "truthy x \<longleftrightarrow> (\<exists>v. x = Some v \<and> v \<noteq> [])"
  by (cases x) simp_all

lemma check_env_hasErrors:
  "hasErrors (check_env penv) = (\<exists>n \<in> set requiredEnvVars. \<not> truthy (penv n))"
  by (simp add: check_env_def Let_def process_exit_def console_log_def console_error_def
      required_hasErrors optional_hasErrors)

lemma check_env_exited:
  "exited (check_env penv) = Some (if hasErrors (check_env penv) then 1 else 0)"
  by (simp add: check_env_def Let_def process_exit_def console_log_def console_error_def
      required_hasErrors optional_hasErrors)


lemma check_env_agree:
  assumes "\<And>n. n \<in> set (requiredEnvVars @ optionalEnvVars) \<Longrightarrow> penv1 n = penv2 n"
  shows "check_env penv1 = check_env penv2"
proof -
  have req: "forEach (check_required penv1) requiredEnvVars s =
             forEach (check_required penv2) requiredEnvVars s" for s
    by (rule forEach_cong) (simp add: check_required_def assms)
  have opt: "forEach (check_optional penv1) optionalEnvVars s =
             forEach (check_optional penv2) optionalEnvVars s" for s
    by (rule forEach_cong) (simp add: check_optional_def assms)
  have app: "penv1 ''NEXT_PUBLIC_APP_ENV'' = penv2 ''NEXT_PUBLIC_APP_ENV''"
    by (rule assms) (simp add: requiredEnvVars_def)
  have node: "penv1 ''NODE_ENV'' = penv2 ''NODE_ENV''"
    by (rule assms) (simp add: requiredEnvVars_def)
  show ?thesis
    unfolding check_env_def req opt app node ..
qed

lemma nextConfig_agree:
  "penv1 ''NEXT_PUBLIC_APP_ENV'' = penv2 ''NEXT_PUBLIC_APP_ENV'' \<Longrightarrow>
   nextConfig penv1 = nextConfig penv2"
  by (simp add: nextConfig_def)









section \<open>The validator\<close>

text \<open>
  Claim C1. The run ends with \<^verbatim>\<open>hasErrors\<close> false (the validation passes) exactly when
  every required name maps to a non-empty string in the environment; a required name
  that is unset or set to the empty string leaves the flag true.
\<close>

theorem validate_allOk_iff:
  "\<not> hasErrors (check_env penv) \<longleftrightarrow>
     (\<forall>n \<in> set [''NODE_ENV'', ''NEXT_PUBLIC_APP_ENV'', ''NEXT_PUBLIC_API_URL'',
                 ''DATABASE_URL'', ''NEXTAUTH_SECRET'', ''NEXTAUTH_URL''].
        \<exists>v. penv n = Some v \<and> v \<noteq> [])"
  unfolding check_env_hasErrors requiredEnvVars_def truthy_iff by blast

theorem validate_allOk_iff_witness:
  "\<not> hasErrors (check_env production_env) \<and> hasErrors (check_env unset_env) \<and>
   hasErrors (check_env production_env_no_db)"
proof -
  have "\<not> hasErrors (check_env production_env)"
    using validate_allOk_iff [of production_env] by (simp add: production_env_def)
  moreover have "hasErrors (check_env unset_env)"
    using validate_allOk_iff [of unset_env] by (auto simp: unset_env_def)
  moreover have "hasErrors (check_env production_env_no_db)"
    using validate_allOk_iff [of production_env_no_db]
    by (auto simp: production_env_no_db_def production_env_def)
  ultimately show ?thesis by blast
qed



text \<open>
  Claim C6. The script always reaches \<^verbatim>\<open>process.exit\<close>: with code 0 when \<^verbatim>\<open>hasErrors\<close> is
  false and with code 1 when it is true. Setting, changing or removing an optional
  variable leaves the exit code as it was, and so does any change of the environment
  that keeps the values of the required names.
\<close>

theorem exit_code:
  "exited (check_env penv) = Some (if hasErrors (check_env penv) then 1 else 0)
   \<and> (\<forall>n \<in> set optionalEnvVars. \<forall>x. exited (check_env (penv(n := x))) = exited (check_env penv))
   \<and> ((\<forall>n \<in> set requiredEnvVars. penv1 n = penv2 n) \<longrightarrow>
        exited (check_env penv1) = exited (check_env penv2))"
proof (intro conjI)
  show "exited (check_env penv) = Some (if hasErrors (check_env penv) then 1 else 0)"
    by (rule check_env_exited)
  show "\<forall>n \<in> set optionalEnvVars. \<forall>x. exited (check_env (penv(n := x))) = exited (check_env penv)"
    unfolding check_env_exited check_env_hasErrors
    by (simp add: requiredEnvVars_def optionalEnvVars_def)
  show "(\<forall>n \<in> set requiredEnvVars. penv1 n = penv2 n) \<longrightarrow>
        exited (check_env penv1) = exited (check_env penv2)"
    unfolding check_env_exited check_env_hasErrors by simp
qed

theorem exit_code_witness:
  "exited (check_env production_env) = Some 0 \<and>
   exited (check_env production_env_logging) = Some 0 \<and>
   exited (check_env production_env_path) = Some 0 \<and>
   exited (check_env unset_env) = Some 1"
proof -
  have ok: "\<not> hasErrors (check_env production_env)"
    by (simp add: check_env_hasErrors requiredEnvVars_def production_env_def)
  have bad: "hasErrors (check_env unset_env)"
    by (auto simp: check_env_hasErrors requiredEnvVars_def unset_env_def)
  have "exited (check_env production_env) = Some 0"
    using exit_code [of production_env production_env production_env] ok by simp
  moreover have "exited (check_env production_env_logging) = exited (check_env production_env)"
    using exit_code [of production_env, THEN conjunct2, THEN conjunct1]
    by (simp add: production_env_logging_def optionalEnvVars_def)
  moreover have "exited (check_env production_env_path) = exited (check_env production_env)"
    using exit_code [of production_env production_env_path production_env]
    by (simp add: production_env_path_def requiredEnvVars_def)
  moreover have "exited (check_env unset_env) = Some 1"
    using exit_code [of unset_env unset_env unset_env] bad by simp
  ultimately show ?thesis by simp
qed

section \<open>The configuration\<close>

text \<open>
  Claim C2. When \<^verbatim>\<open>NEXT_PUBLIC_APP_ENV\<close> is the string \<^verbatim>\<open>production\<close>, the configuration
  attaches exactly four headers, in this order: \<^verbatim>\<open>X-DNS-Prefetch-Control: on\<close>,
  \<^verbatim>\<open>Strict-Transport-Security: max-age=63072000; includeSubDomains; preload\<close>,
  \<^verbatim>\<open>X-Content-Type-Options: nosniff\<close>, \<^verbatim>\<open>X-Frame-Options: DENY\<close>, all on the one route
  pattern \<^verbatim>\<open>/:path*\<close>. For every other value, and when the variable is not set, it
  attaches none.
\<close>

theorem securityHeaders_by_discriminator:
  "securityHeaders (nextConfig penv) =
     (if penv ''NEXT_PUBLIC_APP_ENV'' = Some ''production''
      then [(''X-DNS-Prefetch-Control'', ''on''),
            (''Strict-Transport-Security'', ''max-age=63072000; includeSubDomains; preload''),
            (''X-Content-Type-Options'', ''nosniff''),
            (''X-Frame-Options'', ''DENY'')]
      else [])
   \<and> map source (headers (nextConfig penv)) =
     (if penv ''NEXT_PUBLIC_APP_ENV'' = Some ''production'' then [''/:path*''] else [])"
  by (simp add: nextConfig_def securityHeaders_def)

theorem securityHeaders_by_discriminator_witness:
  "length (securityHeaders (nextConfig production_env)) = 4 \<and>
   securityHeaders (nextConfig staging_env) = [] \<and>
   securityHeaders (nextConfig unset_env) = []"
  using securityHeaders_by_discriminator [of production_env]
    securityHeaders_by_discriminator [of staging_env]
    securityHeaders_by_discriminator [of unset_env]
  by (simp add: production_env_def staging_env_def unset_env_def)

text \<open>
  Claim C3. The \<^verbatim>\<open>output\<close> entry is \<^verbatim>\<open>'standalone'\<close> when \<^verbatim>\<open>NEXT_PUBLIC_APP_ENV\<close> is the
  string \<^verbatim>\<open>production\<close>. For every other value, and when the variable is not set, the
  entry is \<^verbatim>\<open>undefined\<close>, which leaves the build tool at its standard output mode.
\<close>

theorem output_by_discriminator:
  "output_cfg (nextConfig penv) =
     (if penv ''NEXT_PUBLIC_APP_ENV'' = Some ''production'' then Some ''standalone'' else None)"
  by (simp add: nextConfig_def)

theorem output_by_discriminator_witness:
  "output_cfg (nextConfig production_env) = Some ''standalone'' \<and>
   output_cfg (nextConfig staging_env) = None \<and>
   output_cfg (nextConfig unset_env) = None"
  using output_by_discriminator [of production_env] output_by_discriminator [of staging_env]
    output_by_discriminator [of unset_env]
  by (simp add: production_env_def staging_env_def unset_env_def)

text \<open>
  Claim C4. The image domains are \<^verbatim>\<open>yourapp.com\<close> and \<^verbatim>\<open>cdn.yourapp.com\<close> when
  \<^verbatim>\<open>NEXT_PUBLIC_APP_ENV\<close> is the string \<^verbatim>\<open>production\<close>, and \<^verbatim>\<open>localhost\<close> alone for every
  other value and when the variable is not set.
\<close>

theorem image_domains_by_discriminator:
  "domains (images (nextConfig penv)) =
     (if penv ''NEXT_PUBLIC_APP_ENV'' = Some ''production''
      then [''yourapp.com'', ''cdn.yourapp.com''] else [''localhost''])
   \<and> set (domains (images (nextConfig penv))) =
     (if penv ''NEXT_PUBLIC_APP_ENV'' = Some ''production''
      then {''yourapp.com'', ''cdn.yourapp.com''} else {''localhost''})"
  by (simp add: nextConfig_def)

theorem image_domains_by_discriminator_witness:
  "set (domains (images (nextConfig production_env))) = {''yourapp.com'', ''cdn.yourapp.com''} \<and>
   set (domains (images (nextConfig staging_env))) = {''localhost''} \<and>
   set (domains (images (nextConfig unset_env))) = {''localhost''}"
  using image_domains_by_discriminator [of production_env]
    image_domains_by_discriminator [of staging_env]
    image_domains_by_discriminator [of unset_env]
  by (simp add: production_env_def staging_env_def unset_env_def)

text \<open>
  Claim C7. \<open>nextConfig\<close> gives a configuration for every environment. The source has
  no \<^verbatim>\<open>throw\<close>, no rejected promise and no operation that can fail (a property read on
  \<^verbatim>\<open>process.env\<close> and a strict comparison of strings always return), so there is no
  failing branch: whatever \<^verbatim>\<open>NEXT_PUBLIC_APP_ENV\<close> holds, any string or nothing at all,
  the resolved configuration (\<^verbatim>\<open>output\<close>, image domains, attached headers) is one of
  exactly two values, the production one or the non-production one. Any two environments
  whose discriminator is not the string \<^verbatim>\<open>production\<close>, unset included, get the same
  resolved configuration, the non-production one; their \<^verbatim>\<open>images\<close>, \<^verbatim>\<open>headers\<close> and
  \<^verbatim>\<open>reactStrictMode\<close> entries are equal as well. (The \<^verbatim>\<open>env.APP_ENV\<close> entry is not part
  of the resolved configuration; it echoes the variable.)
\<close>

theorem resolve_total_uniform:
  "(output_cfg (nextConfig penv), domains (images (nextConfig penv)),
    securityHeaders (nextConfig penv)) \<in>
     {(Some ''standalone'',
       [''yourapp.com'', ''cdn.yourapp.com''],
       [(''X-DNS-Prefetch-Control'', ''on''),
        (''Strict-Transport-Security'', ''max-age=63072000; includeSubDomains; preload''),
        (''X-Content-Type-Options'', ''nosniff''),
        (''X-Frame-Options'', ''DENY'')]),
      (None, [''localhost''], [])}
   \<and> (penv1 ''NEXT_PUBLIC_APP_ENV'' \<noteq> Some ''production'' \<longrightarrow>
       penv2 ''NEXT_PUBLIC_APP_ENV'' \<noteq> Some ''production'' \<longrightarrow>
         output_cfg (nextConfig penv1) = output_cfg (nextConfig penv2) \<and>
         domains (images (nextConfig penv1)) = domains (images (nextConfig penv2)) \<and>
         securityHeaders (nextConfig penv1) = securityHeaders (nextConfig penv2) \<and>
         images (nextConfig penv1) = images (nextConfig penv2) \<and>
         headers (nextConfig penv1) = headers (nextConfig penv2) \<and>
         reactStrictMode (nextConfig penv1) = reactStrictMode (nextConfig penv2) \<and>
         output_cfg (nextConfig penv1) = None \<and>
         domains (images (nextConfig penv1)) = [''localhost''] \<and>
         securityHeaders (nextConfig penv1) = [])"
  by (simp add: nextConfig_def securityHeaders_def)

theorem resolve_total_uniform_witness:
  "output_cfg (nextConfig staging_env) = output_cfg (nextConfig unset_env) \<and>
   domains (images (nextConfig staging_env)) = domains (images (nextConfig unset_env)) \<and>
   securityHeaders (nextConfig staging_env) = securityHeaders (nextConfig unset_env) \<and>
   output_cfg (nextConfig staging_env) = None \<and>
   domains (images (nextConfig staging_env)) = [''localhost''] \<and>
   securityHeaders (nextConfig staging_env) = [] \<and>
   output_cfg (nextConfig empty_string_env) = output_cfg (nextConfig capitalised_env) \<and>
   domains (images (nextConfig empty_string_env)) =
     domains (images (nextConfig capitalised_env)) \<and>
   securityHeaders (nextConfig empty_string_env) = securityHeaders (nextConfig capitalised_env)"
proof -
  have s: "staging_env ''NEXT_PUBLIC_APP_ENV'' \<noteq> Some ''production''"
    by (simp add: staging_env_def)
  have u: "unset_env ''NEXT_PUBLIC_APP_ENV'' \<noteq> Some ''production''"
    by (simp add: unset_env_def)
  have e: "empty_string_env ''NEXT_PUBLIC_APP_ENV'' \<noteq> Some ''production''"
    by (simp add: empty_string_env_def)
  have c: "capitalised_env ''NEXT_PUBLIC_APP_ENV'' \<noteq> Some ''production''"
    by (simp add: capitalised_env_def)
  note r = resolve_total_uniform [THEN conjunct2, rule_format]
  show ?thesis
    using r [of staging_env unset_env, OF s u] r [of empty_string_env capitalised_env, OF e c]
    by blast
qed

text \<open>
  Claim C9. The three tests on \<^verbatim>\<open>NEXT_PUBLIC_APP_ENV\<close> are strict equalities with the
  string \<^verbatim>\<open>production\<close>: any other string, such as \<^verbatim>\<open>Production\<close>, \<^verbatim>\<open>PRODUCTION\<close> or
  \<^verbatim>\<open>production\<close> followed by a space, takes the non-production branch of \<^verbatim>\<open>output\<close>, of
  \<^verbatim>\<open>images.domains\<close> and of \<^verbatim>\<open>headers\<close> alike.
\<close>

theorem discriminator_exact:
  "penv ''NEXT_PUBLIC_APP_ENV'' = Some d \<Longrightarrow> d \<noteq> ''production'' \<Longrightarrow>
   output_cfg (nextConfig penv) = None \<and>
   domains (images (nextConfig penv)) = [''localhost''] \<and>
   headers (nextConfig penv) = [] \<and>
   securityHeaders (nextConfig penv) = []"
  by (simp add: nextConfig_def securityHeaders_def)

theorem discriminator_exact_witness:
  "output_cfg (nextConfig capitalised_env) = None \<and>
   domains (images (nextConfig capitalised_env)) = [''localhost''] \<and>
   headers (nextConfig capitalised_env) = [] \<and>
   output_cfg (nextConfig upper_case_env) = None \<and>
   domains (images (nextConfig upper_case_env)) = [''localhost''] \<and>
   headers (nextConfig upper_case_env) = [] \<and>
   output_cfg (nextConfig trailing_space_env) = None \<and>
   domains (images (nextConfig trailing_space_env)) = [''localhost''] \<and>
   headers (nextConfig trailing_space_env) = []"
proof -
  have c: "capitalised_env ''NEXT_PUBLIC_APP_ENV'' = Some ''Production''"
    by (simp add: capitalised_env_def)
  have u: "upper_case_env ''NEXT_PUBLIC_APP_ENV'' = Some ''PRODUCTION''"
    by (simp add: upper_case_env_def)
  have t: "trailing_space_env ''NEXT_PUBLIC_APP_ENV'' = Some ''production ''"
    by (simp add: trailing_space_env_def)
  show ?thesis
    using discriminator_exact [of capitalised_env "''Production''", OF c]
      discriminator_exact [of upper_case_env "''PRODUCTION''", OF u]
      discriminator_exact [of trailing_space_env "''production ''", OF t]
    by simp
qed

text \<open>
  Claim C10. The configuration's \<^verbatim>\<open>env.APP_ENV\<close> is the value of \<^verbatim>\<open>NEXT_PUBLIC_APP_ENV\<close>
  when that is a non-empty string, and the string \<^verbatim>\<open>development\<close> when the variable is
  unset or empty.
\<close>

theorem APP_ENV_fallback:
  "APP_ENV (env (nextConfig penv)) =
     (case penv ''NEXT_PUBLIC_APP_ENV'' of
        None \<Rightarrow> ''development''
      | Some d \<Rightarrow> if d = [] then ''development'' else d)"
  by (simp add: nextConfig_def split: option.split)

theorem APP_ENV_fallback_witness:
  "APP_ENV (env (nextConfig staging_env)) = ''staging'' \<and>
   APP_ENV (env (nextConfig production_env)) = ''production'' \<and>
   APP_ENV (env (nextConfig unset_env)) = ''development'' \<and>
   APP_ENV (env (nextConfig empty_string_env)) = ''development''"
  using APP_ENV_fallback [of staging_env] APP_ENV_fallback [of production_env]
    APP_ENV_fallback [of unset_env] APP_ENV_fallback [of empty_string_env]
  by (simp add: staging_env_def production_env_def unset_env_def empty_string_env_def)

end
